theory Spec2Isabelle
  imports Complex_Main "HOL-Library.Sublist"
begin

section \<open>Python values used by the fashion-finder core\<close>

subsection \<open>Decimal\<close>

text \<open>
  A \<^verbatim>\<open>decimal.Decimal\<close> is modelled by the rational number it denotes, and \<open>+\<close>, \<open>-\<close>,
  \<open>*\<close>, \<open>/\<close> and the comparisons are the exact ones. Python's default context keeps 28
  significant digits: the quotient taken in the fall-back branch of
  \<^verbatim>\<open>get_exchange_rate\<close>, and products and sums with it, are rounded in the 28th digit
  there and are exact here. The sign of zero and the exponent of a value are not part of
  the model.

  \<^verbatim>\<open>x.quantize(Decimal("0.01"), rounding=ROUND_HALF_UP)\<close> rounds to two decimal places,
  ties away from zero.
\<close>

type_synonym Decimal = rat

definition quantize2 :: "Decimal \<Rightarrow> Decimal" where
  "quantize2 x =
     (if 0 \<le> x then of_int \<lfloor>x * 100 + 1 / 2\<rfloor> / 100
      else - (of_int \<lfloor>- x * 100 + 1 / 2\<rfloor> / 100))"

text \<open>A value with at most two decimal places: a whole number of hundredths.\<close>

definition is_cents :: "Decimal \<Rightarrow> bool" where
  "is_cents x = (of_int \<lfloor>x * 100\<rfloor> = x * 100)"

subsection \<open>Strings\<close>

text \<open>
  A \<^verbatim>\<open>str\<close> is a list of characters; a character stands for a code point up to U+00FF
  (ASCII and Latin-1, which holds the Swedish letters). \<^verbatim>\<open>str.lower\<close> maps the letters A
  to Z and U+00C0 to U+00DE (but the sign U+00D7) to the code point 32 above.
  \<^verbatim>\<open>str.upper\<close> maps a to z and U+00E0 to U+00FE (but the sign U+00F7) to the code point
  32 below; the three characters whose upper case lies outside Latin-1 (U+00B5, U+00DF,
  U+00FF) are left as they are.
\<close>

definition lower_char :: "char \<Rightarrow> char" where
  "lower_char c =
     (let n = (of_char c :: nat)
      in if (65 \<le> n \<and> n \<le> 90) \<or> (192 \<le> n \<and> n \<le> 222 \<and> n \<noteq> 215)
         then char_of (n + 32) else c)"

definition upper_char :: "char \<Rightarrow> char" where
  "upper_char c =
     (let n = (of_char c :: nat)
      in if (97 \<le> n \<and> n \<le> 122) \<or> (224 \<le> n \<and> n \<le> 254 \<and> n \<noteq> 247)
         then char_of (n - 32) else c)"

definition lower :: "string \<Rightarrow> string" where
  "lower s = map lower_char s"

definition upper :: "string \<Rightarrow> string" where
  "upper s = map upper_char s"

text \<open>\<^verbatim>\<open>sub in s\<close> on strings: \<open>sub\<close> occurs in \<open>s\<close> as a contiguous block.\<close>

fun str_in :: "string \<Rightarrow> string \<Rightarrow> bool" where
  "str_in sub [] = (sub = [])"
| "str_in sub (c # cs) = (prefix sub (c # cs) \<or> str_in sub cs)"

text \<open>The truth value of an \<^verbatim>\<open>Optional[str]\<close>: present and not empty.\<close>

definition truthy :: "string option \<Rightarrow> bool" where
  "truthy s = (case s of None \<Rightarrow> False | Some v \<Rightarrow> v \<noteq> [])"

text \<open>\<^verbatim>\<open>s or ""\<close>\<close>

definition or_empty :: "string option \<Rightarrow> string" where
  "or_empty s = (case s of None \<Rightarrow> [] | Some v \<Rightarrow> v)"

section \<open>Data model (src/shops/base.py)\<close>

datatype ShopRegion = SE | EU | NON_EU

text \<open>
  The fields of \<^verbatim>\<open>ShopConfig\<close> and \<^verbatim>\<open>ProductResult\<close> that the modelled functions read or
  write. The feed, affiliate and URL fields take no part in them.
\<close>

record ShopConfig =
  cfg_id :: string
  display_name :: string
  region :: ShopRegion
  cfg_currency :: string
  free_shipping_threshold :: "Decimal option"
  base_shipping_cost :: "Decimal option"
  ships_to_sweden :: bool

record ProductResult =
  shop_id :: string
  external_id :: string
  name :: string
  brand :: "string option"
  price :: Decimal
  currency :: string
  category :: "string option"
  color :: "string option"
  sizes :: "string list"
  description :: "string option"
  shipping_cost :: "Decimal option"
  customs_cost :: "Decimal option"
  vat_cost :: "Decimal option"
  total_cost :: "Decimal option"
  total_cost_sek :: "Decimal option"
  in_stock :: bool

section \<open>Cost calculator (src/core/cost_calculator.py)\<close>

definition DEFAULT_EXCHANGE_RATES :: "string \<rightharpoonup> Decimal" where
  "DEFAULT_EXCHANGE_RATES =
     map_of [(''EUR'', 23 / 2), (''USD'', 21 / 2), (''GBP'', 27 / 2), (''SEK'', 1)]"

definition SWEDISH_VAT_RATE :: Decimal where
  "SWEDISH_VAT_RATE = 25 / 100"

definition CUSTOMS_THRESHOLD_EUR :: Decimal where
  "CUSTOMS_THRESHOLD_EUR = 150"

definition CUSTOMS_RATES :: "string \<rightharpoonup> Decimal" where
  "CUSTOMS_RATES =
     map_of [(''clothing'', 12 / 100), (''footwear'', 8 / 100),
             (''accessories'', 4 / 100), (''default'', 5 / 100)]"

text \<open>
  The calculator object: its credential and its memo of fetched rates. \<open>fetches\<close> is not a
  field of the class: it counts the calls of \<^verbatim>\<open>_fetch_live_rate\<close> made so far, so that the
  rate provider may answer each call differently.
\<close>

record CostCalculator =
  api_key :: "string option"
  cached_rates :: "string \<rightharpoonup> Decimal"
  fetches :: nat

text \<open>
  The rate provider behind \<^verbatim>\<open>_fetch_live_rate\<close>: what the \<open>n\<close>-th call returns for a
  currency pair, \<open>None\<close> when the call raises (network failure, timeout, bad status,
  missing rate).
\<close>

type_synonym live_rates = "nat \<Rightarrow> string \<Rightarrow> string \<Rightarrow> Decimal option"

text \<open>The part of \<^verbatim>\<open>get_exchange_rate\<close> after the cache and the live fetch.\<close>

definition fallback_rate :: "string \<Rightarrow> string \<Rightarrow> Decimal" where
  "fallback_rate from_currency to_currency =
     (if to_currency = ''SEK'' \<and> DEFAULT_EXCHANGE_RATES from_currency \<noteq> None
      then the (DEFAULT_EXCHANGE_RATES from_currency)
      else if to_currency \<noteq> ''SEK''
      then (let from_to_sek = (case DEFAULT_EXCHANGE_RATES from_currency of
                                 Some r \<Rightarrow> r | None \<Rightarrow> 1);
                to_to_sek = (case DEFAULT_EXCHANGE_RATES to_currency of
                               Some r \<Rightarrow> r | None \<Rightarrow> 1)
            in from_to_sek / to_to_sek)
      else 1)"

definition get_exchange_rate ::
  "live_rates \<Rightarrow> CostCalculator \<Rightarrow> string \<Rightarrow> string \<Rightarrow> Decimal \<times> CostCalculator" where
  "get_exchange_rate live calc from_currency to_currency =
     (if from_currency = to_currency then (1, calc)
      else
        let cache_key = from_currency @ ''_'' @ to_currency in
        case cached_rates calc cache_key of
          Some r \<Rightarrow> (r, calc)
        | None \<Rightarrow>
            if truthy (api_key calc) then
              (let calc1 = calc\<lparr>fetches := Suc (fetches calc)\<rparr> in
               case live (fetches calc) from_currency to_currency of
                 Some r \<Rightarrow> (r, calc1\<lparr>cached_rates := (cached_rates calc1)(cache_key \<mapsto> r)\<rparr>)
               | None \<Rightarrow> (fallback_rate from_currency to_currency, calc1))
            else (fallback_rate from_currency to_currency, calc))"

definition convert_to_sek :: "Decimal \<Rightarrow> string \<Rightarrow> Decimal \<Rightarrow> Decimal" where
  "convert_to_sek amount from_currency rate =
     (if from_currency = ''SEK'' then amount else quantize2 (amount * rate))"

text \<open>
  \<^verbatim>\<open>config.free_shipping_threshold and price >= config.free_shipping_threshold\<close>: an absent
  threshold and a threshold of zero are both false. \<^verbatim>\<open>config.base_shipping_cost or
  Decimal("0")\<close> is the cost when there is one, and zero otherwise.
\<close>

definition calculate_shipping :: "Decimal \<Rightarrow> ShopConfig \<Rightarrow> Decimal" where
  "calculate_shipping p config =
     (if \<not> ships_to_sweden config then 0
      else if (case free_shipping_threshold config of
                 None \<Rightarrow> False | Some t \<Rightarrow> t \<noteq> 0 \<and> p \<ge> t) then 0
      else (case base_shipping_cost config of None \<Rightarrow> 0 | Some b \<Rightarrow> b))"

text \<open>The duty rate chosen in \<^verbatim>\<open>calculate_customs\<close>.\<close>

definition clothing_keywords :: "string list" where
  "clothing_keywords = [''shirt'', ''pants'', ''jacket'', ''dress'', ''coat'']"

definition footwear_keywords :: "string list" where
  "footwear_keywords = [''shoe'', ''boot'', ''sneaker'', ''sandal'']"

definition accessories_keywords :: "string list" where
  "accessories_keywords = [''bag'', ''belt'', ''watch'', ''jewelry'']"

definition any_in :: "string list \<Rightarrow> string \<Rightarrow> bool" where
  "any_in keywords s = list_ex (\<lambda>c. str_in c s) keywords"

definition customs_rate :: "string option \<Rightarrow> Decimal" where
  "customs_rate cat =
     (let rate = the (CUSTOMS_RATES ''default'') in
      if truthy cat then
        (let cat_lower = lower (or_empty cat) in
         if any_in clothing_keywords cat_lower then the (CUSTOMS_RATES ''clothing'')
         else if any_in footwear_keywords cat_lower then the (CUSTOMS_RATES ''footwear'')
         else if any_in accessories_keywords cat_lower then the (CUSTOMS_RATES ''accessories'')
         else rate)
      else rate)"

definition calculate_customs ::
  "Decimal \<Rightarrow> Decimal \<Rightarrow> ShopRegion \<Rightarrow> string option \<Rightarrow> Decimal \<times> Decimal" where
  "calculate_customs price_eur shipping_eur reg cat =
     (if reg = SE \<or> reg = EU then (0, 0)
      else
        let total_value = price_eur + shipping_eur;
            customs_duty =
              (if total_value \<le> CUSTOMS_THRESHOLD_EUR then 0
               else quantize2 (price_eur * customs_rate cat));
            vat_base = total_value + customs_duty;
            import_vat = quantize2 (vat_base * SWEDISH_VAT_RATE)
        in (customs_duty, import_vat))"

text \<open>The local variables of \<^verbatim>\<open>calculate_total_cost\<close>, in the order they are assigned.\<close>

record cost_locals =
  l_rate :: Decimal
  l_shipping :: Decimal
  l_price_eur :: Decimal
  l_shipping_eur :: Decimal
  l_customs_eur :: Decimal
  l_vat_eur :: Decimal
  l_customs :: Decimal
  l_vat :: Decimal
  l_total :: Decimal
  l_total_sek :: Decimal

definition total_cost_locals ::
  "live_rates \<Rightarrow> CostCalculator \<Rightarrow> ProductResult \<Rightarrow> ShopConfig
     \<Rightarrow> cost_locals \<times> CostCalculator" where
  "total_cost_locals live calc product config =
     (let (rate, c1) = get_exchange_rate live calc (currency product) ''SEK'';
          shipping = calculate_shipping (price product) config;
          (price_eur, shipping_eur, c2) =
            (if currency product = ''EUR'' then (price product, shipping, c1)
             else
               let (eur_rate, c) = get_exchange_rate live c1 (currency product) ''EUR''
               in (price product * eur_rate, shipping * eur_rate, c));
          (customs_eur, vat_eur) =
            calculate_customs price_eur shipping_eur (region config) (category product);
          (customs, vat, c4) =
            (if currency product = ''EUR'' then (customs_eur, vat_eur, c2)
             else
               let (sek_to_eur, c3) = get_exchange_rate live c2 ''SEK'' ''EUR'';
                   (eur_to_orig, c) = get_exchange_rate live c3 ''EUR'' (currency product)
               in (customs_eur * eur_to_orig, vat_eur * eur_to_orig, c));
          total = price product + shipping + customs + vat;
          total_sek = convert_to_sek total (currency product) rate
      in (\<lparr>l_rate = rate, l_shipping = shipping, l_price_eur = price_eur,
           l_shipping_eur = shipping_eur, l_customs_eur = customs_eur, l_vat_eur = vat_eur,
           l_customs = customs, l_vat = vat, l_total = total, l_total_sek = total_sek\<rparr>,
          c4))"

definition calculate_total_cost ::
  "live_rates \<Rightarrow> CostCalculator \<Rightarrow> ProductResult \<Rightarrow> ShopConfig
     \<Rightarrow> ProductResult \<times> CostCalculator" where
  "calculate_total_cost live calc product config =
     (let (l, calc') = total_cost_locals live calc product config
      in (product\<lparr>shipping_cost := Some (quantize2 (l_shipping l)),
                  customs_cost := Some (quantize2 (l_customs l)),
                  vat_cost := Some (quantize2 (l_vat l)),
                  total_cost := Some (quantize2 (l_total l)),
                  total_cost_sek := Some (l_total_sek l)\<rparr>,
          calc'))"

section \<open>Relevance scoring (src/shops/base.py)\<close>

text \<open>
  The fields of \<^verbatim>\<open>SearchQuery\<close> that \<^verbatim>\<open>calculate_relevance\<close> reads; the fields that
  \<^verbatim>\<open>ProductResult\<close> shares with it carry the prefix \<open>q_\<close>.
\<close>

record SearchQuery =
  query :: string
  q_category :: "string option"
  q_brand :: "string option"
  q_color :: "string option"
  q_size :: "string option"
  style_tags :: "string list"

text \<open>
  \<^verbatim>\<open>str.split()\<close> without arguments cuts at runs of whitespace and returns no empty
  string; \<^verbatim>\<open>str.strip()\<close> removes the whitespace at both ends. The whitespace characters
  up to U+00FF are the ones \<^verbatim>\<open>str.isspace\<close> accepts.
\<close>

definition is_space :: "char \<Rightarrow> bool" where
  "is_space c = ((of_char c :: nat) \<in> set [9, 10, 11, 12, 13, 28, 29, 30, 31, 32, 133, 160])"

fun split_acc :: "string \<Rightarrow> string \<Rightarrow> string list" where
  "split_acc acc [] = (if acc = [] then [] else [acc])"
| "split_acc acc (c # cs) =
     (if is_space c then (if acc = [] then split_acc [] cs else acc # split_acc [] cs)
      else split_acc (acc @ [c]) cs)"

definition split :: "string \<Rightarrow> string list" where
  "split s = split_acc [] s"

definition strip :: "string \<Rightarrow> string" where
  "strip s = rev (dropWhile is_space (rev (dropWhile is_space s)))"

text \<open>
  The scores are Python floats. They are modelled by the rational numbers the literals
  denote, with exact sums and quotients: the rounding of binary floating point is not
  part of the model.
\<close>

definition query_terms :: "SearchQuery \<Rightarrow> string list" where
  "query_terms q =
     (let query_lower = lower (query q)
      in map strip (filter (\<lambda>t. length (strip t) > 1) (split query_lower)))"

definition product_text :: "ProductResult \<Rightarrow> string" where
  "product_text product =
     lower (name product) @ '' '' @ lower (or_empty (brand product)) @ '' '' @
     lower (or_empty (description product)) @ '' '' @ lower (or_empty (category product))"

text \<open>1. Brand matching (0.35 max)\<close>

definition brand_score :: "ProductResult \<Rightarrow> SearchQuery \<Rightarrow> rat" where
  "brand_score product q =
     (let product_brand_lower = lower (or_empty (brand product)) in
      if truthy (q_brand q) then
        (let query_brand_lower = lower (or_empty (q_brand q)) in
         if product_brand_lower \<noteq> [] then
           (if query_brand_lower = product_brand_lower then 35 / 100
            else if str_in query_brand_lower product_brand_lower \<or>
                    str_in product_brand_lower query_brand_lower then 25 / 100
            else 0)
         else 0)
      else
        fold (\<lambda>tm s.
                if str_in tm product_brand_lower then max s (30 / 100)
                else if product_brand_lower \<noteq> [] \<and> str_in tm (product_text product)
                then max s (10 / 100)
                else s)
             (query_terms q) 0)"

text \<open>2. Category/type matching (0.25 max)\<close>

definition category_synonyms :: "string \<rightharpoonup> string list" where
  "category_synonyms =
     map_of
       [(''hoodie'', [''hoodie'', ''hooded'', ''pullover'', ''sweatshirt'']),
        (''jacket'', [''jacket'', ''coat'', ''blazer'', ''parka'', ''bomber'']),
        (''pants'', [''pants'', ''trousers'', ''jeans'', ''chinos'']),
        (''shirt'', [''shirt'', ''blouse'', ''top'', ''tee'', ''t-shirt'']),
        (''shoes'', [''shoes'', ''sneakers'', ''boots'', ''trainers'', ''footwear'']),
        (''sweater'', [''sweater'', ''jumper'', ''knit'', ''cardigan'', ''pullover'']),
        (''dress'', [''dress'', ''gown'']),
        (''skirt'', [''skirt'']),
        (''shorts'', [''shorts''])]"

text \<open>\<^verbatim>\<open>table.get(key, [key])\<close>\<close>

definition synonyms_of :: "(string \<rightharpoonup> string list) \<Rightarrow> string \<Rightarrow> string list" where
  "synonyms_of table k = (case table k of None \<Rightarrow> [k] | Some syns \<Rightarrow> syns)"

definition category_score :: "ProductResult \<Rightarrow> SearchQuery \<Rightarrow> rat" where
  "category_score product q =
     (let product_name_lower = lower (name product);
          product_category_lower = lower (or_empty (category product)) in
      if truthy (q_category q) then
        (let query_cat = lower (or_empty (q_category q));
             synonyms = synonyms_of category_synonyms query_cat
         in if list_ex (\<lambda>syn. str_in syn product_name_lower \<or>
                              str_in syn product_category_lower) synonyms
            then 25 / 100 else 0)
      else
        fold (\<lambda>tm s.
                let synonyms = synonyms_of category_synonyms tm
                in if list_ex (\<lambda>syn. str_in syn product_name_lower \<or>
                                     str_in syn product_category_lower) synonyms
                   then max s (20 / 100) else s)
             (query_terms q) 0)"

text \<open>3. Query term matching (0.20 max)\<close>

definition term_score :: "ProductResult \<Rightarrow> SearchQuery \<Rightarrow> rat" where
  "term_score product q =
     (if query_terms q \<noteq> [] then
        (let matched_terms =
               length (filter (\<lambda>tm. str_in tm (product_text product)) (query_terms q))
         in of_nat matched_terms / of_nat (length (query_terms q)) * (20 / 100))
      else 0)"

text \<open>
  4. Color matching (0.10 max). The Swedish colour words hold the code points U+00E5
  and U+00F6.
\<close>

definition color_synonyms :: "string \<rightharpoonup> string list" where
  "color_synonyms =
     map_of
       [(''black'', [''black'', ''noir'', ''svart'']),
        (''white'', [''white'', ''cream'', ''ivory'', ''vit'']),
        (''blue'', [''blue'', ''navy'', ''cobalt'', ''bl'' @ [CHR 0xE5]]),
        (''red'', [''red'', ''crimson'', ''r'' @ [CHR 0xF6] @ ''d'']),
        (''green'', [''green'', ''olive'', ''gr'' @ [CHR 0xF6] @ ''n'']),
        (''gray'', [''gray'', ''grey'', ''charcoal'', ''gr'' @ [CHR 0xE5]]),
        (''brown'', [''brown'', ''tan'', ''camel'', ''brun'']),
        (''pink'', [''pink'', ''rose'', ''rosa'']),
        (''beige'', [''beige'', ''sand'', ''khaki''])]"

definition color_score :: "ProductResult \<Rightarrow> SearchQuery \<Rightarrow> rat" where
  "color_score product q =
     (let product_name_lower = lower (name product);
          product_color_lower = lower (or_empty (color product)) in
      if truthy (q_color q) then
        (let query_color = lower (or_empty (q_color q));
             synonyms = synonyms_of color_synonyms query_color
         in if list_ex (\<lambda>syn. str_in syn product_color_lower \<or>
                              str_in syn product_name_lower) synonyms
            then 10 / 100 else 0)
      else
        fold (\<lambda>tm s. if str_in tm product_color_lower then max s (8 / 100) else s)
             (query_terms q) 0)"

text \<open>5. Style tags matching (0.05 max)\<close>

definition style_score :: "ProductResult \<Rightarrow> SearchQuery \<Rightarrow> rat" where
  "style_score product q =
     (if style_tags q \<noteq> [] then
        (let matching_tags =
               length (filter (\<lambda>tag. str_in (lower tag) (product_text product)) (style_tags q))
         in of_nat matching_tags / of_nat (length (style_tags q)) * (5 / 100))
      else 0)"

text \<open>6. Size availability (0.05 max)\<close>

definition size_score :: "ProductResult \<Rightarrow> SearchQuery \<Rightarrow> rat" where
  "size_score product q =
     (if truthy (q_size q) \<and> sizes product \<noteq> [] then
        (if List.member (map upper (sizes product)) (upper (or_empty (q_size q)))
         then 5 / 100 else 0)
      else 0)"

text \<open>The score adds the six parts in the order of the source and is cut at 1.\<close>

definition calculate_relevance :: "ProductResult \<Rightarrow> SearchQuery \<Rightarrow> rat" where
  "calculate_relevance product q =
     min (brand_score product q + category_score product q + term_score product q +
          color_score product q + style_score product q + size_score product q) 1"

section \<open>Exceptions and shop adapters\<close>

text \<open>
  What a call raised: an instance of \<^verbatim>\<open>Exception\<close>. The handlers of the modelled code are
  all \<^verbatim>\<open>except Exception\<close>; cancellation and interpreter exit, which derive from
  \<^verbatim>\<open>BaseException\<close> only, are not modelled. A call that may raise returns \<open>exn + 'a\<close>,
  with \<open>Inl\<close> for the exception.
\<close>

datatype exn =
    TimeoutError
  | InvalidOperation
  | DivisionByZero
  | TypeError
  | OtherException string

definition bind_exn :: "exn + 'a \<Rightarrow> ('a \<Rightarrow> exn + 'b) \<Rightarrow> exn + 'b" where
  "bind_exn m f = (case m of Inl e \<Rightarrow> Inl e | Inr v \<Rightarrow> f v)"

text \<open>
  A \<^verbatim>\<open>ShopAdapter\<close> as its callers see it: the shop it serves, and what its \<^verbatim>\<open>search\<close> and
  \<^verbatim>\<open>get_product\<close> coroutines end in (a value or an exception) when awaited.
  \<^verbatim>\<open>check_availability\<close> is the method of the base class; no adapter overrides it.
\<close>

record ShopAdapter =
  adapter_shop_id :: string
  search :: "SearchQuery \<Rightarrow> exn + ProductResult list"
  get_product :: "string option \<Rightarrow> exn + ProductResult option"

definition check_availability ::
  "ShopAdapter \<Rightarrow> string option \<Rightarrow> exn + (bool \<times> Decimal option)" where
  "check_availability adapter ext_id =
     bind_exn (get_product adapter ext_id)
       (\<lambda>product. case product of
                     Some p \<Rightarrow> Inr (in_stock p, Some (price p))
                   | None \<Rightarrow> Inr (False, None))"

text \<open>
  \<^verbatim>\<open>ShopRegistry.get_adapter\<close>, by the registry lookup it ends in: the adapter of a
  configured shop, \<open>None\<close> for any other id. The construction and caching of the adapter
  object are not modelled.
\<close>

type_synonym registry = "string \<rightharpoonup> ShopAdapter"

definition get_adapter :: "registry \<Rightarrow> string option \<Rightarrow> ShopAdapter option" where
  "get_adapter reg sid = (case sid of None \<Rightarrow> None | Some s \<Rightarrow> reg s)"

section \<open>Search orchestrator (src/api/routes/search.py)\<close>

text \<open>
  \<^verbatim>\<open>asyncio.gather(*coros)\<close> without \<^verbatim>\<open>return_exceptions\<close>: the results in the order of the
  arguments, or the first exception one of them raised.
\<close>

fun gather :: "(exn + 'a) list \<Rightarrow> exn + 'a list" where
  "gather [] = Inr []"
| "gather (Inl e # rest) = Inl e"
| "gather (Inr v # rest) = (case gather rest of Inl e \<Rightarrow> Inl e | Inr vs \<Rightarrow> Inr (v # vs))"

text \<open>The inner coroutine \<^verbatim>\<open>search_shop\<close> of \<^verbatim>\<open>search_products\<close>.\<close>

definition search_shop :: "SearchQuery \<Rightarrow> ShopAdapter \<Rightarrow> exn + ProductResult list" where
  "search_shop search_query adapter =
     (case search adapter search_query of
        Inr results \<Rightarrow> Inr results
      | Inl e \<Rightarrow> Inr [])"

text \<open>
  The fan-out of \<^verbatim>\<open>search_products\<close> and the loop that flattens its results into
  \<^verbatim>\<open>all_results\<close> (lines 104 to 117), before costs are added and the list is sorted.
  The route answers a request that leaves it no adapter with an HTTP error before the
  fan-out, so the list of adapters it fans out over is not empty.
\<close>

definition all_results :: "ShopAdapter list \<Rightarrow> SearchQuery \<Rightarrow> exn + ProductResult list" where
  "all_results adapters search_query =
     bind_exn (gather (map (search_shop search_query) adapters))
       (\<lambda>results_lists. Inr (concat results_lists))"

section \<open>Price monitoring (src/monitor/price_checker.py, src/monitor/notifier.py)\<close>

text \<open>
  A watchlist item is a \<^verbatim>\<open>dict\<close>. An entry of it is missing, \<^verbatim>\<open>None\<close>, or a value.
  Prices in it are numbers (\<^verbatim>\<open>float\<close> or \<^verbatim>\<open>Decimal\<close>), modelled by the rational they
  denote.
\<close>

datatype 'a entry = Absent | Null | Val 'a

record watch_item =
  item_id :: "string entry"
  item_shop_id :: "string entry"
  item_product_id :: "string entry"
  current_price :: "Decimal entry"
  target_price :: "Decimal entry"
  item_currency :: "string entry"
  user_email :: "string entry"
  notify_any_drop :: "bool entry"

text \<open>\<^verbatim>\<open>item.get(key)\<close> and \<^verbatim>\<open>item.get(key, default)\<close>; \<open>None\<close> is Python's \<^verbatim>\<open>None\<close>.\<close>

definition dict_get :: "'a entry \<Rightarrow> 'a option" where
  "dict_get f = (case f of Absent \<Rightarrow> None | Null \<Rightarrow> None | Val v \<Rightarrow> Some v)"

definition dict_get_default :: "'a entry \<Rightarrow> 'a \<Rightarrow> 'a option" where
  "dict_get_default f d = (case f of Absent \<Rightarrow> Some d | Null \<Rightarrow> None | Val v \<Rightarrow> Some v)"

text \<open>
  \<^verbatim>\<open>Decimal(str(x))\<close> raises \<^verbatim>\<open>InvalidOperation\<close> on \<^verbatim>\<open>None\<close>; \<^verbatim>\<open>float(x)\<close> raises
  \<^verbatim>\<open>TypeError\<close> on \<^verbatim>\<open>None\<close>; \<^verbatim>\<open>a / b\<close> on \<^verbatim>\<open>Decimal\<close> raises when \<open>b\<close> is zero.
\<close>

definition to_decimal :: "Decimal option \<Rightarrow> exn + Decimal" where
  "to_decimal x = (case x of None \<Rightarrow> Inl InvalidOperation | Some v \<Rightarrow> Inr v)"

definition to_float :: "Decimal option \<Rightarrow> exn + rat" where
  "to_float x = (case x of None \<Rightarrow> Inl TypeError | Some v \<Rightarrow> Inr v)"

definition dec_div :: "Decimal \<Rightarrow> Decimal \<Rightarrow> exn + Decimal" where
  "dec_div a b =
     (if b = 0 then (if a = 0 then Inl InvalidOperation else Inl DivisionByZero)
      else Inr (a / b))"

text \<open>\<^verbatim>\<open>PriceCheck\<close>, without \<^verbatim>\<open>checked_at\<close> (the wall clock).\<close>

record PriceCheck =
  watchlist_id :: "string option"
  product_id :: "string option"
  pc_shop_id :: "string option"
  old_price :: Decimal
  new_price :: Decimal
  pc_currency :: "string option"
  price_dropped :: bool
  drop_amount :: Decimal
  drop_percent :: rat
  target_price_reached :: bool

text \<open>The \<^verbatim>\<open>try\<close> block of \<^verbatim>\<open>PriceChecker.check_price\<close>.\<close>

definition check_price_try :: "ShopAdapter \<Rightarrow> watch_item \<Rightarrow> exn + PriceCheck option" where
  "check_price_try adapter item =
     bind_exn (check_availability adapter (dict_get (item_product_id item)))
       (\<lambda>(in_stock, cur_price).
          case cur_price of
            None \<Rightarrow> Inr None
          | Some new_pr \<Rightarrow>
              bind_exn (to_decimal (dict_get_default (current_price item) 0))
                (\<lambda>old_pr.
                   let drop_amt = old_pr - new_pr in
                   bind_exn (if old_pr > 0
                             then bind_exn (dec_div drop_amt old_pr) (\<lambda>d. Inr (d * 100))
                             else Inr 0)
                     (\<lambda>drop_pct.
                        let target = dict_get (target_price item) in
                        bind_exn (case target of
                                    None \<Rightarrow> Inr False
                                  | Some t \<Rightarrow>
                                      bind_exn (to_decimal (Some t)) (\<lambda>d. Inr (new_pr \<le> d)))
                          (\<lambda>target_reached.
                             Inr (Some \<lparr>watchlist_id = dict_get_default (item_id item) [],
                                        product_id = dict_get (item_product_id item),
                                        pc_shop_id = dict_get (item_shop_id item),
                                        old_price = old_pr,
                                        new_price = new_pr,
                                        pc_currency =
                                          dict_get_default (item_currency item) ''SEK'',
                                        price_dropped = (new_pr < old_pr),
                                        drop_amount = drop_amt,
                                        drop_percent = drop_pct,
                                        target_price_reached = target_reached\<rparr>)))))"

definition check_price :: "registry \<Rightarrow> watch_item \<Rightarrow> PriceCheck option" where
  "check_price reg item =
     (case get_adapter reg (dict_get (item_shop_id item)) of
        None \<Rightarrow> None
      | Some adapter \<Rightarrow>
          (case check_price_try adapter item of
             Inl e \<Rightarrow> None
           | Inr r \<Rightarrow> r))"

text \<open>
  The notifier is called with a recipient and the prices; the product name, the shop's
  display name and the product URL, which only fill the template of the mail, are left
  out. A notification is the call made: which of the two send methods, and with what.
\<close>

datatype notification =
    TargetPriceAlert string rat rat "string option"
  | PriceDropAlert string rat rat "string option" rat

text \<open>
  The decision of \<^verbatim>\<open>process_price_checks\<close>: \<^verbatim>\<open>notification_type\<close> when \<^verbatim>\<open>should_notify\<close>
  is set, \<open>None\<close> when it is not.
\<close>

definition notification_type :: "PriceCheck \<Rightarrow> watch_item \<Rightarrow> string option" where
  "notification_type chk item =
     (if target_price_reached chk then Some ''target''
      else if price_dropped chk \<and> dict_get_default (notify_any_drop item) True = Some True
      then Some ''drop''
      else None)"

text \<open>
  The body of the loop of \<^verbatim>\<open>process_price_checks\<close> for one check: the call it makes to
  the notifier, \<open>None\<close> when it continues without one.
\<close>

definition notify_one :: "(string \<rightharpoonup> watch_item) \<Rightarrow> PriceCheck \<Rightarrow> exn + notification option" where
  "notify_one watchlist_items chk =
     (case (case watchlist_id chk of None \<Rightarrow> None | Some wid \<Rightarrow> watchlist_items wid) of
        None \<Rightarrow> Inr None
      | Some item \<Rightarrow>
          (case dict_get (user_email item) of
             None \<Rightarrow> Inr None
           | Some email \<Rightarrow>
               if email = [] then Inr None
               else
                 (case notification_type chk item of
                    None \<Rightarrow> Inr None
                  | Some ty \<Rightarrow>
                      if ty = ''target'' then
                        bind_exn (to_float (dict_get_default (target_price item) 0))
                          (\<lambda>target.
                             Inr (Some (TargetPriceAlert email target (new_price chk)
                                          (pc_currency chk))))
                      else
                        Inr (Some (PriceDropAlert email (old_price chk) (new_price chk)
                                     (pc_currency chk) (drop_percent chk))))))"

text \<open>
  \<^verbatim>\<open>process_price_checks\<close>: the calls made to the notifier, in order, and the exception
  that ended the loop, if one did. The source returns the notifier's answer to each call.
\<close>

fun process_price_checks ::
  "PriceCheck list \<Rightarrow> (string \<rightharpoonup> watch_item) \<Rightarrow> notification list \<times> exn option" where
  "process_price_checks [] watchlist_items = ([], None)"
| "process_price_checks (chk # checks) watchlist_items =
     (case notify_one watchlist_items chk of
        Inl e \<Rightarrow> ([], Some e)
      | Inr n \<Rightarrow>
          (let (sent, raised) = process_price_checks checks watchlist_items
           in ((case n of None \<Rightarrow> sent | Some x \<Rightarrow> x # sent), raised)))"

section \<open>Example inputs\<close>

text \<open>A jacket priced in EUR at a shop outside the EU that ships for a flat 20.\<close>

definition us_jacket :: ProductResult where
  "us_jacket =
     \<lparr>shop_id = ''us_outlet'', external_id = ''J-1'', name = ''Field Jacket'', brand = None,
      price = 200, currency = ''EUR'', category = Some ''jacket'', color = None, sizes = [],
      description = None, shipping_cost = None, customs_cost = None, vat_cost = None,
      total_cost = None, total_cost_sek = None, in_stock = True\<rparr>"

definition us_outlet :: ShopConfig where
  "us_outlet =
     \<lparr>cfg_id = ''us_outlet'', display_name = ''US Outlet'', region = NON_EU,
      cfg_currency = ''EUR'', free_shipping_threshold = None, base_shipping_cost = Some 20,
      ships_to_sweden = True\<rparr>"

text \<open>An EU shop with free shipping from 500 and a flat cost of 49 below it.\<close>

definition shop_free_over_500 :: ShopConfig where
  "shop_free_over_500 =
     \<lparr>cfg_id = ''nordic'', display_name = ''Nordic'', region = EU, cfg_currency = ''SEK'',
      free_shipping_threshold = Some 500, base_shipping_cost = Some 49,
      ships_to_sweden = True\<rparr>"

text \<open>The same shop with \<^verbatim>\<open>free_shipping_threshold=Decimal("0")\<close>.\<close>

definition shop_zero_threshold :: ShopConfig where
  "shop_zero_threshold = shop_free_over_500\<lparr>free_shipping_threshold := Some 0\<rparr>"

text \<open>A calculator without a rate-provider credential, and one with it; both memos empty.\<close>

definition no_key_calculator :: CostCalculator where
  "no_key_calculator = \<lparr>api_key = None, cached_rates = Map.empty, fetches = 0\<rparr>"

definition keyed_calculator :: CostCalculator where
  "keyed_calculator = \<lparr>api_key = Some ''k-1'', cached_rates = Map.empty, fetches = 0\<rparr>"

text \<open>The query and the product of the specification's scoring example.\<close>

definition nike_query :: SearchQuery where
  "nike_query =
     \<lparr>query = ''Nike hoodie black'', q_category = Some ''hoodie'', q_brand = Some ''Nike'',
      q_color = None, q_size = None, style_tags = []\<rparr>"

definition nike_hoodie :: ProductResult where
  "nike_hoodie =
     \<lparr>shop_id = ''nordic'', external_id = ''H-7'',
      name = ''Nike Sportswear Tech Fleece Hoodie Black'', brand = Some ''Nike'',
      price = 89995 / 100, currency = ''SEK'', category = None, color = None, sizes = [],
      description = None, shipping_cost = None, customs_cost = None, vat_cost = None,
      total_cost = None, total_cost_sek = None, in_stock = True\<rparr>"

text \<open>Three adapters: the second one's search times out.\<close>

definition outlet_adapter :: ShopAdapter where
  "outlet_adapter =
     \<lparr>adapter_shop_id = ''us_outlet'', search = (\<lambda>q. Inr [us_jacket]),
      get_product = (\<lambda>ext_id. Inr (Some us_jacket))\<rparr>"

definition slow_adapter :: ShopAdapter where
  "slow_adapter =
     \<lparr>adapter_shop_id = ''slow'', search = (\<lambda>q. Inl TimeoutError),
      get_product = (\<lambda>ext_id. Inl TimeoutError)\<rparr>"

definition nordic_adapter :: ShopAdapter where
  "nordic_adapter =
     \<lparr>adapter_shop_id = ''nordic'', search = (\<lambda>q. Inr [nike_hoodie]),
      get_product = (\<lambda>ext_id. Inr (Some (nike_hoodie\<lparr>price := 799\<rparr>)))\<rparr>"

text \<open>
  The registry of the three adapters, and a watch entry for the hoodie at the second
  shop: last known price 899.95, target price 750, no notification on a mere drop. The
  shop's adapter now reports the price 799.
\<close>

definition shop_registry :: registry where
  "shop_registry =
     [''us_outlet'' \<mapsto> outlet_adapter, ''slow'' \<mapsto> slow_adapter,
      ''nordic'' \<mapsto> nordic_adapter]"

definition hoodie_watch :: watch_item where
  "hoodie_watch =
     \<lparr>item_id = Val ''w-1'', item_shop_id = Val ''nordic'', item_product_id = Val ''H-7'',
      current_price = Val (89995 / 100), target_price = Val 750, item_currency = Val ''SEK'',
      user_email = Val ''anna@example.org'', notify_any_drop = Val False\<rparr>"

text \<open>What the price check of that entry returns.\<close>

definition hoodie_check :: PriceCheck where
  "hoodie_check =
     \<lparr>watchlist_id = Some ''w-1'', product_id = Some ''H-7'', pc_shop_id = Some ''nordic'',
      old_price = 89995 / 100, new_price = 799, pc_currency = Some ''SEK'',
      price_dropped = True, drop_amount = 10095 / 100, drop_percent = 201900 / 17999,
      target_price_reached = False\<rparr>"

section \<open>Rounding to two decimal places\<close>



lemma quantize2_cents: "is_cents x \<Longrightarrow> quantize2 x = x"
proof -
  assume c: "is_cents x"
  define k where "k = \<lfloor>x * 100\<rfloor>"
  have xk: "x * 100 = of_int k" using c unfolding is_cents_def k_def by (rule sym)
  have f1: "\<lfloor>(of_int k :: rat) + 1 / 2\<rfloor> = k" by linarith
  have f2: "\<lfloor>(of_int (- k) :: rat) + 1 / 2\<rfloor> = - k" by linarith
  have x: "x = of_int k / 100" using xk by simp
  show ?thesis
  proof (cases "0 \<le> x")
    case True
    then show ?thesis using f1 xk by (simp add: quantize2_def x)
  next
    case False
    have "- x * 100 = of_int (- k)" using xk by simp
    then have "\<lfloor>- x * 100 + 1 / 2\<rfloor> = - k" using f2 by simp
    then show ?thesis using False by (simp add: quantize2_def) (simp add: x)
  qed
qed


lemma is_cents_add: "is_cents a \<Longrightarrow> is_cents b \<Longrightarrow> is_cents (a + b)"
proof -
  assume a: "is_cents a" and b: "is_cents b"
  have a': "a * 100 = of_int \<lfloor>a * 100\<rfloor>" using a unfolding is_cents_def by (rule sym)
  have b': "b * 100 = of_int \<lfloor>b * 100\<rfloor>" using b unfolding is_cents_def by (rule sym)
  have "(a + b) * 100 = of_int (\<lfloor>a * 100\<rfloor> + \<lfloor>b * 100\<rfloor>)"
    using a' b' by (simp add: distrib_right)
  then show ?thesis unfolding is_cents_def by simp
qed

lemma quantize2_zero: "quantize2 0 = 0"
  by code_simp

section \<open>Shipping\<close>

text \<open>
  Claim C7 says that the shipping cost is 0 when the shop cannot ship to Sweden, and
  otherwise exactly 0 when the price is at or above the shop's free-shipping threshold
  and exactly the flat base cost when it is below. A threshold of zero refutes the
  middle part: the test \<^verbatim>\<open>config.free_shipping_threshold and ...\<close> reads
  \<^verbatim>\<open>Decimal("0")\<close> as false, so a price of 100, which is at or above the threshold 0,
  is charged the flat 49.
\<close>

theorem calculate_shipping_zero_threshold_counterexample:
  "ships_to_sweden shop_zero_threshold \<and>
   free_shipping_threshold shop_zero_threshold = Some 0 \<and> (0::Decimal) \<le> 100 \<and>
   calculate_shipping 100 shop_zero_threshold = 49"
  by (simp add: shop_zero_threshold_def shop_free_over_500_def calculate_shipping_def)

text \<open>
  Claim C7 as the code has it: no shipping cost when the shop cannot ship to Sweden; for
  a shop that ships, no cost when the shop has a threshold other than zero and the price
  is at or above it, and the flat base cost (zero when the shop has none) when the price
  is below the threshold, or when the shop has no threshold or a threshold of zero.
\<close>

theorem calculate_shipping_rule:
  "(\<not> ships_to_sweden config \<longrightarrow> calculate_shipping p config = 0) \<and>
   (ships_to_sweden config \<and> free_shipping_threshold config = Some t \<and> t \<noteq> 0 \<and> t \<le> p
      \<longrightarrow> calculate_shipping p config = 0) \<and>
   (ships_to_sweden config \<and> free_shipping_threshold config = Some t \<and> p < t
      \<longrightarrow> calculate_shipping p config =
           (case base_shipping_cost config of None \<Rightarrow> 0 | Some b \<Rightarrow> b)) \<and>
   (ships_to_sweden config \<and>
      (free_shipping_threshold config = None \<or> free_shipping_threshold config = Some 0)
      \<longrightarrow> calculate_shipping p config =
           (case base_shipping_cost config of None \<Rightarrow> 0 | Some b \<Rightarrow> b))"
  by (auto simp: calculate_shipping_def split: option.splits)

theorem calculate_shipping_rule_witness:
  "calculate_shipping 500 shop_free_over_500 = 0 \<and>
   calculate_shipping (49999 / 100) shop_free_over_500 = 49 \<and>
   calculate_shipping 500 (shop_free_over_500\<lparr>ships_to_sweden := False\<rparr>) = 0 \<and>
   calculate_shipping 500 (shop_free_over_500\<lparr>free_shipping_threshold := None\<rparr>) = 49"
proof -
  let ?c = shop_free_over_500
  have at: "ships_to_sweden ?c \<and> free_shipping_threshold ?c = Some 500 \<and>
      (500::Decimal) \<noteq> 0 \<and> (500::Decimal) \<le> 500"
    by (simp add: shop_free_over_500_def)
  have below: "ships_to_sweden ?c \<and> free_shipping_threshold ?c = Some 500 \<and>
      (49999 / 100 :: Decimal) < 500"
    by (simp add: shop_free_over_500_def)
  have base: "base_shipping_cost ?c = Some 49"
    by (simp add: shop_free_over_500_def)
  have a: "calculate_shipping 500 ?c = 0"
    using calculate_shipping_rule [of ?c 500 500] at by blast
  have b: "calculate_shipping (49999 / 100) ?c = 49"
    using calculate_shipping_rule [of ?c "49999 / 100" 500] below base by simp
  have c: "calculate_shipping 500 (?c\<lparr>ships_to_sweden := False\<rparr>) = 0"
    using calculate_shipping_rule [of "?c\<lparr>ships_to_sweden := False\<rparr>" 500 500] by simp
  have d: "calculate_shipping 500 (?c\<lparr>free_shipping_threshold := None\<rparr>) = 49"
    using calculate_shipping_rule [of "?c\<lparr>free_shipping_threshold := None\<rparr>" 500 500] at base
    by simp
  show ?thesis using a b c d by blast
qed

section \<open>Customs duty and import VAT\<close>




lemma calculate_customs_eu: "reg \<noteq> NON_EU \<Longrightarrow> calculate_customs p s reg c = (0, 0)"
  by (cases reg) (simp_all add: calculate_customs_def)


section \<open>Total landed cost\<close>

lemma cost_fields:
  "shipping_cost (fst (calculate_total_cost live calc product config)) =
     Some (quantize2 (l_shipping (fst (total_cost_locals live calc product config))))"
  "customs_cost (fst (calculate_total_cost live calc product config)) =
     Some (quantize2 (l_customs (fst (total_cost_locals live calc product config))))"
  "vat_cost (fst (calculate_total_cost live calc product config)) =
     Some (quantize2 (l_vat (fst (total_cost_locals live calc product config))))"
  "total_cost (fst (calculate_total_cost live calc product config)) =
     Some (quantize2 (l_total (fst (total_cost_locals live calc product config))))"
  "total_cost_sek (fst (calculate_total_cost live calc product config)) =
     Some (l_total_sek (fst (total_cost_locals live calc product config)))"
  by (simp_all add: calculate_total_cost_def split: prod.splits)




lemma total_cost_locals_eu:
  assumes "region config \<noteq> NON_EU"
  shows "l_customs_eur (fst (total_cost_locals live calc product config)) = 0"
    and "l_vat_eur (fst (total_cost_locals live calc product config)) = 0"
    and "l_customs (fst (total_cost_locals live calc product config)) = 0"
    and "l_vat (fst (total_cost_locals live calc product config)) = 0"
    and "l_shipping (fst (total_cost_locals live calc product config)) =
           calculate_shipping (price product) config"
    and "l_total (fst (total_cost_locals live calc product config)) =
           price product + calculate_shipping (price product) config"
  using assms
  by (simp_all add: total_cost_locals_def calculate_customs_eu Let_def split: prod.splits)




text \<open>
  Claim C6: for a shop in region \<open>SE\<close> or \<open>EU\<close>, whatever the price, the shipping policy,
  the currency and the exchange rates, \<^verbatim>\<open>calculate_customs\<close> returns duty 0 and VAT 0,
  the product's customs and VAT fields are 0, and the total in the product's currency is
  price plus shipping and nothing else: the local \<^verbatim>\<open>total\<close> is exactly that sum, and
  the field \<^verbatim>\<open>total_cost\<close> is the sum rounded to two decimal places, hence the sum
  itself when price and shipping are whole cents.
\<close>

theorem home_and_union_shops_pay_no_duty_or_vat:
  assumes "region config = SE \<or> region config = EU"
  shows "calculate_customs price_eur shipping_eur (region config) cat = (0, 0) \<and>
    customs_cost (fst (calculate_total_cost live calc product config)) = Some 0 \<and>
    vat_cost (fst (calculate_total_cost live calc product config)) = Some 0 \<and>
    l_total (fst (total_cost_locals live calc product config)) =
      price product + calculate_shipping (price product) config \<and>
    total_cost (fst (calculate_total_cost live calc product config)) =
      Some (quantize2 (price product + calculate_shipping (price product) config)) \<and>
    (is_cents (price product) \<and> is_cents (calculate_shipping (price product) config) \<longrightarrow>
     total_cost (fst (calculate_total_cost live calc product config)) =
       Some (price product + calculate_shipping (price product) config))"
proof -
  have r: "region config \<noteq> NON_EU" using assms by auto
  have a: "calculate_customs price_eur shipping_eur (region config) cat = (0, 0)"
    by (rule calculate_customs_eu [OF r])
  have b: "customs_cost (fst (calculate_total_cost live calc product config)) = Some 0"
    by (simp add: cost_fields total_cost_locals_eu [OF r] quantize2_zero)
  have c: "vat_cost (fst (calculate_total_cost live calc product config)) = Some 0"
    by (simp add: cost_fields total_cost_locals_eu [OF r] quantize2_zero)
  have d: "l_total (fst (total_cost_locals live calc product config)) =
      price product + calculate_shipping (price product) config"
    by (rule total_cost_locals_eu [OF r])
  have e: "total_cost (fst (calculate_total_cost live calc product config)) =
      Some (quantize2 (price product + calculate_shipping (price product) config))"
    by (simp add: cost_fields d)
  have f: "is_cents (price product) \<and> is_cents (calculate_shipping (price product) config) \<longrightarrow>
     total_cost (fst (calculate_total_cost live calc product config)) =
       Some (price product + calculate_shipping (price product) config)"
    by (simp add: e quantize2_cents is_cents_add)
  show ?thesis using a b c d e f by blast
qed

theorem home_and_union_shops_pay_no_duty_or_vat_witness:
  "(region shop_free_over_500 = SE \<or> region shop_free_over_500 = EU) \<and>
   customs_cost (fst (calculate_total_cost (\<lambda>n a b. None) no_key_calculator nike_hoodie
      shop_free_over_500)) = Some 0 \<and>
   vat_cost (fst (calculate_total_cost (\<lambda>n a b. None) no_key_calculator nike_hoodie
      shop_free_over_500)) = Some 0 \<and>
   total_cost (fst (calculate_total_cost (\<lambda>n a b. None) no_key_calculator nike_hoodie
      shop_free_over_500)) = Some (89995 / 100) \<and>
   total_cost (fst (calculate_total_cost (\<lambda>n a b. None) no_key_calculator
      (nike_hoodie\<lparr>price := 300\<rparr>) shop_free_over_500)) = Some 349"
proof -
  let ?live = "\<lambda>n a b. None" and ?p = "nike_hoodie\<lparr>price := 300\<rparr>"
  have r: "region shop_free_over_500 = SE \<or> region shop_free_over_500 = EU"
    by (simp add: shop_free_over_500_def)
  note t1 = home_and_union_shops_pay_no_duty_or_vat
      [OF r, where product = nike_hoodie and live = ?live and calc = no_key_calculator]
  note t2 = home_and_union_shops_pay_no_duty_or_vat
      [OF r, where product = ?p and live = ?live and calc = no_key_calculator]
  have p1: "price nike_hoodie = 89995 / 100" and p2: "price ?p = 300"
    by (simp_all add: nike_hoodie_def)
  have s1: "calculate_shipping (89995 / 100) shop_free_over_500 = 0"
    and s2: "calculate_shipping 300 shop_free_over_500 = 49"
    by (simp_all add: calculate_shipping_def shop_free_over_500_def)
  have c1: "is_cents (89995 / 100)" "is_cents 0" "is_cents 300" "is_cents 49"
    by code_simp+
  have w1: "total_cost (fst (calculate_total_cost ?live no_key_calculator nike_hoodie
      shop_free_over_500)) = Some (89995 / 100 + 0)"
    using t1 c1 unfolding p1 s1 by blast
  have w2: "total_cost (fst (calculate_total_cost ?live no_key_calculator ?p
      shop_free_over_500)) = Some (300 + 49)"
    using t2 c1 unfolding p2 s2 by blast
  show ?thesis using r t1 w1 w2 by simp
qed




section \<open>Reproducibility of the cost calculation\<close>

lemma get_exchange_rate_no_live:
  assumes "\<not> truthy (api_key calc) \<or> f = t \<or> cached_rates calc (f @ ''_'' @ t) \<noteq> None"
  shows "get_exchange_rate live calc f t =
           (fst (get_exchange_rate (\<lambda>n a b. None) calc f t), calc)"
  using assms by (auto simp: get_exchange_rate_def Let_def split: option.splits)

lemma total_cost_locals_no_live:
  assumes "\<not> truthy (api_key calc) \<or>
     ((currency product = ''SEK'' \<or> cached_rates calc (currency product @ ''_SEK'') \<noteq> None) \<and>
      (currency product = ''EUR'' \<or>
         (cached_rates calc (currency product @ ''_EUR'') \<noteq> None \<and>
          cached_rates calc ''SEK_EUR'' \<noteq> None \<and>
          cached_rates calc (''EUR_'' @ currency product) \<noteq> None)))"
  shows "total_cost_locals live calc product config =
           total_cost_locals (\<lambda>n a b. None) calc product config"
proof -
  define R where "R f t = fst (get_exchange_rate (\<lambda>n a b. None) calc f t)" for f t
  have g: "get_exchange_rate l calc f t = (R f t, calc)"
    if "\<not> truthy (api_key calc) \<or> f = t \<or> cached_rates calc (f @ ''_'' @ t) \<noteq> None"
    for f t l
    unfolding R_def by (rule get_exchange_rate_no_live [OF that])
  have g1: "get_exchange_rate l calc (currency product) ''SEK'' = (R (currency product) ''SEK'', calc)"
    for l using assms by (intro g) auto
  show ?thesis
  proof (cases "currency product = ''EUR''")
    case True
    show ?thesis by (simp add: total_cost_locals_def g1 [unfolded True] True)
  next
    case False
    have g2: "get_exchange_rate l calc (currency product) ''EUR'' =
        (R (currency product) ''EUR'', calc)" for l
      using assms False by (intro g) auto
    have g3: "get_exchange_rate l calc ''SEK'' ''EUR'' = (R ''SEK'' ''EUR'', calc)" for l
      using assms False by (intro g) auto
    have g4: "get_exchange_rate l calc ''EUR'' (currency product) =
        (R ''EUR'' (currency product), calc)" for l
      using assms False by (intro g) auto
    show ?thesis
      using False by (simp add: total_cost_locals_def g1 g2 g3 g4)
  qed
qed

text \<open>
  Claim C9 says that two executions of the total-cost computation on the same product,
  shop configuration and exchange-rate table give the same monetary outputs. With a
  rate-provider credential and a pair missing from the memo, the computation also asks
  the provider: on the same product, configuration and (empty) memo, a run in which the
  provider answers 11 for EUR to SEK stores 3355.00 as the total in SEK, and a run in
  which the provider fails falls back to 11.50 and stores 3507.50.
\<close>

theorem live_rates_counterexample:
  "total_cost_sek (fst (calculate_total_cost (\<lambda>n a b. Some 11) keyed_calculator
      us_jacket us_outlet)) = Some 3355 \<and>
   total_cost_sek (fst (calculate_total_cost (\<lambda>n a b. None) keyed_calculator
      us_jacket us_outlet)) = Some (7015 / 2)"
  by code_simp

text \<open>
  Claim C9 as the code has it: when no credential is configured, or the memo already
  holds every pair the computation looks up (the product's currency to SEK; and, for a
  product not priced in EUR, its currency to EUR, SEK to EUR and EUR to its currency),
  the result, every cost field of the product and the calculator's memo with it, is
  the same whatever the rate provider would answer. Values are compared as numbers; the
  model does not hold the bytes of a \<^verbatim>\<open>Decimal\<close>.
\<close>

theorem total_cost_deterministic:
  assumes "\<not> truthy (api_key calc) \<or>
     ((currency product = ''SEK'' \<or> cached_rates calc (currency product @ ''_SEK'') \<noteq> None) \<and>
      (currency product = ''EUR'' \<or>
         (cached_rates calc (currency product @ ''_EUR'') \<noteq> None \<and>
          cached_rates calc ''SEK_EUR'' \<noteq> None \<and>
          cached_rates calc (''EUR_'' @ currency product) \<noteq> None)))"
  shows "calculate_total_cost live1 calc product config =
         calculate_total_cost live2 calc product config"
  by (simp add: calculate_total_cost_def
        total_cost_locals_no_live [OF assms, of live1]
        total_cost_locals_no_live [OF assms, of live2])

theorem total_cost_deterministic_witness:
  "\<not> truthy (api_key no_key_calculator) \<and>
   calculate_total_cost (\<lambda>n a b. Some 11) no_key_calculator us_jacket us_outlet =
   calculate_total_cost (\<lambda>n a b. None) no_key_calculator us_jacket us_outlet \<and>
   total_cost_sek (fst (calculate_total_cost (\<lambda>n a b. Some 11) no_key_calculator
      us_jacket us_outlet)) = Some (7015 / 2) \<and>
   cached_rates (keyed_calculator\<lparr>cached_rates := [''EUR_SEK'' \<mapsto> 11]\<rparr>)
      (currency us_jacket @ ''_SEK'') \<noteq> None \<and>
   calculate_total_cost (\<lambda>n a b. Some 12)
      (keyed_calculator\<lparr>cached_rates := [''EUR_SEK'' \<mapsto> 11]\<rparr>) us_jacket us_outlet =
   calculate_total_cost (\<lambda>n a b. None)
      (keyed_calculator\<lparr>cached_rates := [''EUR_SEK'' \<mapsto> 11]\<rparr>) us_jacket us_outlet"
proof -
  let ?k = "keyed_calculator\<lparr>cached_rates := [''EUR_SEK'' \<mapsto> 11]\<rparr>"
  have h1: "\<not> truthy (api_key no_key_calculator)"
    by (simp add: no_key_calculator_def truthy_def)
  have e1: "calculate_total_cost (\<lambda>n a b. Some 11) no_key_calculator us_jacket us_outlet =
      calculate_total_cost (\<lambda>n a b. None) no_key_calculator us_jacket us_outlet"
    by (rule total_cost_deterministic) (simp add: h1)
  have v1: "total_cost_sek (fst (calculate_total_cost (\<lambda>n a b. None) no_key_calculator
      us_jacket us_outlet)) = Some (7015 / 2)"
    by code_simp
  have c: "currency us_jacket = ''EUR''" by (simp add: us_jacket_def)
  have h2: "cached_rates ?k (currency us_jacket @ ''_SEK'') \<noteq> None"
    by (simp add: c)
  have e2: "calculate_total_cost (\<lambda>n a b. Some 12) ?k us_jacket us_outlet =
      calculate_total_cost (\<lambda>n a b. None) ?k us_jacket us_outlet"
    by (rule total_cost_deterministic) (simp add: c)
  show ?thesis using h1 e1 v1 h2 e2 by simp
qed

section \<open>Relevance score\<close>

lemma fold_nonneg:
  fixes a :: rat
  assumes "\<And>x s. 0 \<le> s \<Longrightarrow> 0 \<le> f x s" and "0 \<le> a"
  shows "0 \<le> fold f xs a"
  using assms(2) by (induction xs arbitrary: a) (simp_all add: assms(1))

lemma brand_score_nonneg: "0 \<le> brand_score product q"
  unfolding brand_score_def Let_def by (auto intro!: fold_nonneg simp: max_def)

lemma category_score_nonneg: "0 \<le> category_score product q"
  unfolding category_score_def Let_def by (auto intro!: fold_nonneg simp: max_def)

lemma term_score_nonneg: "0 \<le> term_score product q"
  unfolding term_score_def Let_def by simp

lemma color_score_nonneg: "0 \<le> color_score product q"
  unfolding color_score_def Let_def by (auto intro!: fold_nonneg simp: max_def)

lemma style_score_nonneg: "0 \<le> style_score product q"
  unfolding style_score_def Let_def by simp

lemma size_score_nonneg: "0 \<le> size_score product q"
  unfolding size_score_def by simp

lemma calculate_relevance_reads:
  assumes "name p = name p'" "brand p = brand p'" "description p = description p'"
    "category p = category p'" "color p = color p'" "sizes p = sizes p'"
  shows "calculate_relevance p q = calculate_relevance p' q"
proof -
  have t: "product_text p = product_text p'"
    using assms by (simp add: product_text_def)
  have "brand_score p q = brand_score p' q"
    unfolding brand_score_def t using assms(2) by simp
  moreover have "category_score p q = category_score p' q"
    unfolding category_score_def using assms(1,4) by simp
  moreover have "term_score p q = term_score p' q"
    unfolding term_score_def t by simp
  moreover have "color_score p q = color_score p' q"
    unfolding color_score_def using assms(1,5) by simp
  moreover have "style_score p q = style_score p' q"
    unfolding style_score_def t by simp
  moreover have "size_score p q = size_score p' q"
    unfolding size_score_def using assms(6) by simp
  ultimately show ?thesis by (simp add: calculate_relevance_def)
qed

text \<open>
  Claim C2: for every product and every query the relevance score lies in the closed
  interval from 0 to 1. \<^verbatim>\<open>calculate_relevance\<close> reads its two arguments and nothing
  else and assigns to local variables only, so the model is a function of the product
  and the query: two calls on the same product and query return the same score. Of the
  product it reads the name, the brand, the description, the category, the colour and
  the sizes: two products that agree on these score the same against a query, whatever
  their prices and cost fields are.
\<close>

theorem calculate_relevance_bounds:
  "0 \<le> calculate_relevance product q \<and> calculate_relevance product q \<le> 1 \<and>
   (name product = name p' \<and> brand product = brand p' \<and>
    description product = description p' \<and> category product = category p' \<and>
    color product = color p' \<and> sizes product = sizes p'
      \<longrightarrow> calculate_relevance product q = calculate_relevance p' q)"
proof (intro conjI impI)
  have "0 \<le> brand_score product q + category_score product q + term_score product q +
          color_score product q + style_score product q + size_score product q"
    using brand_score_nonneg [of product q] category_score_nonneg [of product q]
      term_score_nonneg [of product q] color_score_nonneg [of product q]
      style_score_nonneg [of product q] size_score_nonneg [of product q]
    by linarith
  then show "0 \<le> calculate_relevance product q"
    by (simp add: calculate_relevance_def)
  show "calculate_relevance product q \<le> 1"
    by (simp add: calculate_relevance_def)
next
  assume "name product = name p' \<and> brand product = brand p' \<and>
    description product = description p' \<and> category product = category p' \<and>
    color product = color p' \<and> sizes product = sizes p'"
  then show "calculate_relevance product q = calculate_relevance p' q"
    by (intro calculate_relevance_reads) simp_all
qed

theorem calculate_relevance_bounds_witness:
  "name nike_hoodie = name (nike_hoodie\<lparr>price := 1, total_cost := Some 5\<rparr>) \<and>
   calculate_relevance nike_hoodie nike_query =
     calculate_relevance (nike_hoodie\<lparr>price := 1, total_cost := Some 5\<rparr>) nike_query \<and>
   0 \<le> calculate_relevance nike_hoodie nike_query \<and>
   calculate_relevance nike_hoodie nike_query \<le> 1 \<and>
   calculate_relevance nike_hoodie nike_query = 8 / 10"
proof -
  let ?p = "nike_hoodie\<lparr>price := 1, total_cost := Some 5\<rparr>"
  have h: "name nike_hoodie = name ?p \<and> brand nike_hoodie = brand ?p \<and>
      description nike_hoodie = description ?p \<and> category nike_hoodie = category ?p \<and>
      color nike_hoodie = color ?p \<and> sizes nike_hoodie = sizes ?p"
    by simp
  note t = calculate_relevance_bounds [where product = nike_hoodie and q = nike_query
      and p' = ?p]
  have v: "calculate_relevance nike_hoodie nike_query = 8 / 10" by code_simp
  show ?thesis using h t v by blast
qed








section \<open>Fan-out over the shop adapters\<close>

lemma gather_search_shop:
  "gather (map (search_shop q) adapters) =
     Inr (map (\<lambda>a. case search a q of Inr results \<Rightarrow> results | Inl e \<Rightarrow> []) adapters)"
  by (induction adapters) (auto simp: search_shop_def split: sum.splits)

lemma all_results_eq:
  "all_results adapters q =
     Inr (concat (map (\<lambda>a. case search a q of Inr results \<Rightarrow> results | Inl e \<Rightarrow> []) adapters))"
  by (simp add: all_results_def gather_search_shop bind_exn_def)

lemma upt_split_at:
  assumes "i < n"
  shows "[0..<n] = [0..<i] @ i # [Suc i..<n]"
proof -
  have "[0..<i + (n - i)] = [0..<i] @ [i..<i + (n - i)]"
    by (rule upt_add_eq_append) simp
  then have "[0..<n] = [0..<i] @ [i..<n]" using assms by simp
  then show ?thesis using assms by (simp add: upt_conv_Cons)
qed

lemma concat_map_except:
  assumes "i < length xs" and "f (xs ! i) = []"
    and "\<forall>j < length xs. j \<noteq> i \<longrightarrow> f (xs ! j) = g j"
  shows "concat (map f xs) = concat (map g ([0..<i] @ [Suc i..<length xs]))"
proof -
  have "map f xs = map (\<lambda>j. f (xs ! j)) [0..<length xs]"
    by (intro nth_equalityI) simp_all
  then have "concat (map f xs) =
      concat (map (\<lambda>j. f (xs ! j)) [0..<i]) @ f (xs ! i) @
      concat (map (\<lambda>j. f (xs ! j)) [Suc i..<length xs])"
    by (simp add: upt_split_at [OF assms(1)])
  moreover have "map (\<lambda>j. f (xs ! j)) [0..<i] = map g [0..<i]"
    using assms(1,3) by auto
  moreover have "map (\<lambda>j. f (xs ! j)) [Suc i..<length xs] = map g [Suc i..<length xs]"
    using assms(3) by auto
  ultimately show ?thesis using assms(2) by simp
qed

text \<open>
  Claim C3: when the search of one of the adapters raises (a timeout included) and the
  others return, no exception leaves the fan-out, the failing adapter contributes the
  empty list, and the candidate list is the concatenation, in the order of the adapters,
  of what the others returned, so that every result of every succeeding adapter is in
  it. The awaited coroutines are modelled by their outcomes; \<^verbatim>\<open>asyncio.gather\<close> returns
  them in the order of its arguments, whatever the interleaving was.
\<close>

theorem failing_adapter_contributes_empty_list:
  assumes "i < length adapters"
    and "search (adapters ! i) q = Inl e"
    and "\<forall>j < length adapters. j \<noteq> i \<longrightarrow> search (adapters ! j) q = Inr (found j)"
  shows "all_results adapters q =
           Inr (concat (map found ([0..<i] @ [Suc i..<length adapters]))) \<and>
         search_shop q (adapters ! i) = Inr [] \<and>
         (\<forall>j < length adapters. j \<noteq> i \<longrightarrow>
            set (found j) \<subseteq> set (concat (map found ([0..<i] @ [Suc i..<length adapters]))))"
proof -
  let ?f = "\<lambda>a. case search a q of Inr results \<Rightarrow> results | Inl e \<Rightarrow> []"
  have a: "?f (adapters ! i) = []" using assms(2) by simp
  have b: "\<forall>j < length adapters. j \<noteq> i \<longrightarrow> ?f (adapters ! j) = found j"
    using assms(3) by simp
  have 1: "all_results adapters q =
      Inr (concat (map found ([0..<i] @ [Suc i..<length adapters])))"
    unfolding all_results_eq using concat_map_except [OF assms(1) a b] by simp
  have 2: "search_shop q (adapters ! i) = Inr []"
    using assms(2) by (simp add: search_shop_def)
  have 3: "\<forall>j < length adapters. j \<noteq> i \<longrightarrow>
      set (found j) \<subseteq> set (concat (map found ([0..<i] @ [Suc i..<length adapters])))"
  proof (intro allI impI)
    fix j assume "j < length adapters" "j \<noteq> i"
    then have "j \<in> set ([0..<i] @ [Suc i..<length adapters])" by auto
    then show "set (found j) \<subseteq> set (concat (map found ([0..<i] @ [Suc i..<length adapters])))"
      by auto
  qed
  show ?thesis using 1 2 3 by blast
qed

theorem failing_adapter_contributes_empty_list_witness:
  "(1::nat) < length [outlet_adapter, slow_adapter, nordic_adapter] \<and>
   search ([outlet_adapter, slow_adapter, nordic_adapter] ! 1) nike_query = Inl TimeoutError \<and>
   search_shop nike_query slow_adapter = Inr [] \<and>
   all_results [outlet_adapter, slow_adapter, nordic_adapter] nike_query =
     Inr [us_jacket, nike_hoodie]"
proof -
  let ?as = "[outlet_adapter, slow_adapter, nordic_adapter]"
  let ?found = "\<lambda>j::nat. if j = 0 then [us_jacket] else [nike_hoodie]"
  have h1: "(1::nat) < length ?as" by simp
  have h2: "search (?as ! 1) nike_query = Inl TimeoutError"
    by (simp add: slow_adapter_def)
  have h3: "\<forall>j < length ?as. j \<noteq> 1 \<longrightarrow> search (?as ! j) nike_query = Inr (?found j)"
  proof (intro allI impI)
    fix j :: nat
    assume "j < length ?as" and "j \<noteq> 1"
    then have "j = 0 \<or> j = 2" by auto
    then show "search (?as ! j) nike_query = Inr (?found j)"
      by (auto simp: outlet_adapter_def nordic_adapter_def)
  qed
  note t = failing_adapter_contributes_empty_list [OF h1 h2 h3]
  have idx: "[0..<1] @ [Suc 1..<length ?as] = [0, 2]"
    by (simp add: upt_rec)
  have a: "all_results ?as nike_query = Inr [us_jacket, nike_hoodie]"
    using t unfolding idx by simp
  have b: "search_shop nike_query slow_adapter = Inr []"
    using t by simp
  show ?thesis using h1 h2 a b by blast
qed

section \<open>Price check of a watch entry\<close>

lemma dec_div_pos: "0 < b \<Longrightarrow> dec_div a b = Inr (a / b)"
  by (simp add: dec_div_def)

lemma check_price_try_Some:
  assumes "check_availability adapter (dict_get (item_product_id item)) = Inr (stock, Some new_pr)"
    and "dict_get_default (current_price item) 0 = Some old_pr"
  shows "check_price_try adapter item =
     Inr (Some \<lparr>watchlist_id = dict_get_default (item_id item) [],
                product_id = dict_get (item_product_id item),
                pc_shop_id = dict_get (item_shop_id item),
                old_price = old_pr,
                new_price = new_pr,
                pc_currency = dict_get_default (item_currency item) ''SEK'',
                price_dropped = (new_pr < old_pr),
                drop_amount = old_pr - new_pr,
                drop_percent = (if old_pr > 0 then (old_pr - new_pr) / old_pr * 100 else 0),
                target_price_reached =
                  (case dict_get (target_price item) of None \<Rightarrow> False | Some t \<Rightarrow> new_pr \<le> t)\<rparr>)"
proof (cases "dict_get (target_price item)")
  case None
  then show ?thesis
    using assms
    by (simp add: check_price_try_def bind_exn_def to_decimal_def dec_div_pos Let_def)
next
  case (Some t)
  then show ?thesis
    using assms
    by (simp add: check_price_try_def bind_exn_def to_decimal_def dec_div_pos Let_def)
qed

lemma check_price_try_raises:
  assumes "check_availability adapter (dict_get (item_product_id item)) = Inl e"
  shows "check_price_try adapter item = Inl e"
  using assms by (simp add: check_price_try_def bind_exn_def)

lemma check_price_try_no_price:
  assumes "check_availability adapter (dict_get (item_product_id item)) = Inr (stock, None)"
  shows "check_price_try adapter item = Inr None"
  using assms by (simp add: check_price_try_def bind_exn_def)

lemma check_price_try_bad_price:
  assumes "check_availability adapter (dict_get (item_product_id item)) = Inr (stock, Some new_pr)"
    and "dict_get_default (current_price item) 0 = None"
  shows "check_price_try adapter item = Inl InvalidOperation"
  using assms by (simp add: check_price_try_def bind_exn_def to_decimal_def)



lemma check_price_try_result:
  assumes "check_price_try adapter item = Inr (Some chk)"
  shows "\<exists>stock new_pr old_pr.
     check_availability adapter (dict_get (item_product_id item)) = Inr (stock, Some new_pr) \<and>
     dict_get_default (current_price item) 0 = Some old_pr \<and>
     chk = \<lparr>watchlist_id = dict_get_default (item_id item) [],
             product_id = dict_get (item_product_id item),
             pc_shop_id = dict_get (item_shop_id item),
             old_price = old_pr,
             new_price = new_pr,
             pc_currency = dict_get_default (item_currency item) ''SEK'',
             price_dropped = (new_pr < old_pr),
             drop_amount = old_pr - new_pr,
             drop_percent = (if old_pr > 0 then (old_pr - new_pr) / old_pr * 100 else 0),
             target_price_reached =
               (case dict_get (target_price item) of None \<Rightarrow> False | Some t \<Rightarrow> new_pr \<le> t)\<rparr>"
proof (cases "check_availability adapter (dict_get (item_product_id item))")
  case (Inl e')
  then show ?thesis using assms check_price_try_raises [OF Inl] by simp
next
  case (Inr r)
  obtain stock cur where r: "r = (stock, cur)" by (cases r)
  show ?thesis
  proof (cases cur)
    case None
    then show ?thesis using assms check_price_try_no_price [of adapter item stock] Inr r by simp
  next
    case (Some new_pr)
    note av = Inr [unfolded r Some]
    show ?thesis
    proof (cases "dict_get_default (current_price item) 0")
      case None
      then show ?thesis using assms check_price_try_bad_price [OF av None] by simp
    next
      case (Some old_pr)
      have "chk = \<lparr>watchlist_id = dict_get_default (item_id item) [],
             product_id = dict_get (item_product_id item),
             pc_shop_id = dict_get (item_shop_id item),
             old_price = old_pr,
             new_price = new_pr,
             pc_currency = dict_get_default (item_currency item) ''SEK'',
             price_dropped = (new_pr < old_pr),
             drop_amount = old_pr - new_pr,
             drop_percent = (if old_pr > 0 then (old_pr - new_pr) / old_pr * 100 else 0),
             target_price_reached =
               (case dict_get (target_price item) of None \<Rightarrow> False | Some t \<Rightarrow> new_pr \<le> t)\<rparr>"
        using assms check_price_try_Some [OF av Some] by simp
      then show ?thesis using av Some by blast
    qed
  qed
qed

lemma check_price_adapter:
  assumes "check_price reg item = Some chk"
  shows "\<exists>adapter. get_adapter reg (dict_get (item_shop_id item)) = Some adapter \<and>
           check_price_try adapter item = Inr (Some chk)"
  using assms by (auto simp: check_price_def split: option.splits sum.splits)

lemma check_price_flags:
  assumes "check_price reg item = Some chk"
  shows "price_dropped chk = (new_price chk < old_price chk)"
    and "target_price_reached chk = (\<exists>t. target_price item = Val t \<and> new_price chk \<le> t)"
proof -
  obtain adapter where "check_price_try adapter item = Inr (Some chk)"
    using check_price_adapter [OF assms] by blast
  from check_price_try_result [OF this] obtain stock new_pr old_pr where
    c: "chk = \<lparr>watchlist_id = dict_get_default (item_id item) [],
             product_id = dict_get (item_product_id item),
             pc_shop_id = dict_get (item_shop_id item),
             old_price = old_pr,
             new_price = new_pr,
             pc_currency = dict_get_default (item_currency item) ''SEK'',
             price_dropped = (new_pr < old_pr),
             drop_amount = old_pr - new_pr,
             drop_percent = (if old_pr > 0 then (old_pr - new_pr) / old_pr * 100 else 0),
             target_price_reached =
               (case dict_get (target_price item) of None \<Rightarrow> False | Some t \<Rightarrow> new_pr \<le> t)\<rparr>"
    by blast
  show "price_dropped chk = (new_price chk < old_price chk)" by (simp add: c)
  show "target_price_reached chk = (\<exists>t. target_price item = Val t \<and> new_price chk \<le> t)"
    by (cases "target_price item") (simp_all add: c dict_get_def)
qed

lemma notify_one_decision:
  assumes "watchlist_id chk = Some wid" and "watchlist_items wid = Some item"
    and "dict_get (user_email item) = Some email" and "email \<noteq> []"
  shows "notify_one watchlist_items chk =
     (case notification_type chk item of
        None \<Rightarrow> Inr None
      | Some ty \<Rightarrow>
          if ty = ''target'' then
            bind_exn (to_float (dict_get_default (target_price item) 0))
              (\<lambda>target. Inr (Some (TargetPriceAlert email target (new_price chk) (pc_currency chk))))
          else Inr (Some (PriceDropAlert email (old_price chk) (new_price chk)
                            (pc_currency chk) (drop_percent chk))))"
  using assms by (simp add: notify_one_def)

lemma process_single:
  "process_price_checks [chk] watchlist_items =
     (case notify_one watchlist_items chk of
        Inl e \<Rightarrow> ([], Some e)
      | Inr n \<Rightarrow> ((case n of None \<Rightarrow> [] | Some x \<Rightarrow> [x]), None))"
  by (simp split: sum.splits option.splits)



section \<open>Notification decision\<close>

text \<open>
  Claim C4: for the outcome of the price check of a watch entry that reaches the
  decision of \<^verbatim>\<open>process_price_checks\<close> (the entry is in the dictionary under the
  outcome's id and has a recipient address): when the target price is reached (a target
  is set and the new price is at or below it) one target-price notification is sent;
  otherwise, when the new price is strictly below the old one and the entry's
  \<^verbatim>\<open>notify_any_drop\<close> is true (the default when the key is missing), one price-drop
  notification is sent; otherwise none. So an entry with \<^verbatim>\<open>notify_any_drop\<close> false
  gets no drop notification and still gets the target notification, and an unchanged or
  increased price with no target reached sends nothing.
\<close>

theorem notification_decision:
  assumes "check_price reg item = Some chk"
    and "watchlist_id chk = Some wid" and "watchlist_items wid = Some item"
    and "dict_get (user_email item) = Some email" and "email \<noteq> []"
  shows
    "price_dropped chk = (new_price chk < old_price chk) \<and>
     target_price_reached chk = (\<exists>t. target_price item = Val t \<and> new_price chk \<le> t) \<and>
     (target_price_reached chk \<longrightarrow>
        (\<exists>t. target_price item = Val t \<and> new_price chk \<le> t \<and>
             process_price_checks [chk] watchlist_items =
               ([TargetPriceAlert email t (new_price chk) (pc_currency chk)], None))) \<and>
     (\<not> target_price_reached chk \<and> new_price chk < old_price chk \<and>
      dict_get_default (notify_any_drop item) True = Some True \<longrightarrow>
        process_price_checks [chk] watchlist_items =
          ([PriceDropAlert email (old_price chk) (new_price chk) (pc_currency chk)
              (drop_percent chk)], None)) \<and>
     (\<not> target_price_reached chk \<and>
      \<not> (new_price chk < old_price chk \<and>
         dict_get_default (notify_any_drop item) True = Some True) \<longrightarrow>
        process_price_checks [chk] watchlist_items = ([], None)) \<and>
     (notify_any_drop item = Val False \<and> \<not> target_price_reached chk \<longrightarrow>
        process_price_checks [chk] watchlist_items = ([], None)) \<and>
     (\<not> target_price_reached chk \<and> old_price chk \<le> new_price chk \<longrightarrow>
        process_price_checks [chk] watchlist_items = ([], None))"
proof -
  note flags = check_price_flags [OF assms(1)]
  note one = notify_one_decision [where chk = chk and wid = wid and item = item
      and watchlist_items = watchlist_items and email = email, OF assms(2-5)]
  have target: "\<exists>t. target_price item = Val t \<and> new_price chk \<le> t \<and>
      process_price_checks [chk] watchlist_items =
        ([TargetPriceAlert email t (new_price chk) (pc_currency chk)], None)"
    if r: "target_price_reached chk"
  proof -
    obtain t where t: "target_price item = Val t" "new_price chk \<le> t"
      using r flags(2) by blast
    have "notify_one watchlist_items chk =
        Inr (Some (TargetPriceAlert email t (new_price chk) (pc_currency chk)))"
      unfolding one using r t
      by (simp add: notification_type_def dict_get_default_def to_float_def bind_exn_def)
    then show ?thesis using t by (simp add: process_single)
  qed
  have drop: "process_price_checks [chk] watchlist_items =
      ([PriceDropAlert email (old_price chk) (new_price chk) (pc_currency chk)
          (drop_percent chk)], None)"
    if "\<not> target_price_reached chk" "new_price chk < old_price chk"
      "dict_get_default (notify_any_drop item) True = Some True"
  proof -
    have "notify_one watchlist_items chk =
        Inr (Some (PriceDropAlert email (old_price chk) (new_price chk) (pc_currency chk)
                     (drop_percent chk)))"
      unfolding one using that flags(1) by (simp add: notification_type_def)
    then show ?thesis by (simp add: process_single)
  qed
  have none: "process_price_checks [chk] watchlist_items = ([], None)"
    if "\<not> target_price_reached chk"
      "\<not> (new_price chk < old_price chk \<and>
          dict_get_default (notify_any_drop item) True = Some True)"
  proof -
    have "notify_one watchlist_items chk = Inr None"
      unfolding one using that flags(1) by (auto simp: notification_type_def)
    then show ?thesis by (simp add: process_single)
  qed
  have off: "process_price_checks [chk] watchlist_items = ([], None)"
    if "notify_any_drop item = Val False" "\<not> target_price_reached chk"
    using none that by (simp add: dict_get_default_def)
  have up: "process_price_checks [chk] watchlist_items = ([], None)"
    if "\<not> target_price_reached chk" "old_price chk \<le> new_price chk"
    using none that by simp
  show ?thesis using flags target drop none off up by blast
qed

theorem notification_decision_witness:
  "check_price shop_registry hoodie_watch = Some hoodie_check \<and>
   new_price hoodie_check < old_price hoodie_check \<and>
   notify_any_drop hoodie_watch = Val False \<and>
   \<not> target_price_reached hoodie_check \<and>
   process_price_checks [hoodie_check] [''w-1'' \<mapsto> hoodie_watch] = ([], None) \<and>
   check_price shop_registry (hoodie_watch\<lparr>target_price := Val 800\<rparr>) =
     Some (hoodie_check\<lparr>target_price_reached := True\<rparr>) \<and>
   process_price_checks [hoodie_check\<lparr>target_price_reached := True\<rparr>]
     [''w-1'' \<mapsto> hoodie_watch\<lparr>target_price := Val 800\<rparr>] =
     ([TargetPriceAlert ''anna@example.org'' 800 799 (Some ''SEK'')], None) \<and>
   check_price shop_registry (hoodie_watch\<lparr>notify_any_drop := Absent\<rparr>) =
     Some hoodie_check \<and>
   process_price_checks [hoodie_check]
     [''w-1'' \<mapsto> hoodie_watch\<lparr>notify_any_drop := Absent\<rparr>] =
     ([PriceDropAlert ''anna@example.org'' (89995 / 100) 799 (Some ''SEK'')
         (201900 / 17999)], None)"
proof -
  let ?w2 = "hoodie_watch\<lparr>target_price := Val 800\<rparr>"
  let ?c2 = "hoodie_check\<lparr>target_price_reached := True\<rparr>"
  let ?w3 = "hoodie_watch\<lparr>notify_any_drop := Absent\<rparr>"
  have k1: "check_price shop_registry hoodie_watch = Some hoodie_check" by code_simp
  have k2: "check_price shop_registry ?w2 = Some ?c2" by code_simp
  have k3: "check_price shop_registry ?w3 = Some hoodie_check" by code_simp
  have i: "watchlist_id hoodie_check = Some ''w-1''" "watchlist_id ?c2 = Some ''w-1''"
    by (simp_all add: hoodie_check_def)
  have m: "dict_get (user_email hoodie_watch) = Some ''anna@example.org''"
    "dict_get (user_email ?w2) = Some ''anna@example.org''"
    "dict_get (user_email ?w3) = Some ''anna@example.org''"
    by (simp_all add: hoodie_watch_def dict_get_def)
  have ne: "''anna@example.org'' \<noteq> []" by simp
  have l: "[''w-1'' \<mapsto> hoodie_watch] ''w-1'' = Some hoodie_watch"
    "[''w-1'' \<mapsto> ?w2] ''w-1'' = Some ?w2" "[''w-1'' \<mapsto> ?w3] ''w-1'' = Some ?w3"
    by simp_all
  note t1 = notification_decision [where watchlist_items = "[''w-1'' \<mapsto> hoodie_watch]"
      and wid = "''w-1''", OF k1 i(1) l(1) m(1) ne]
  note t2 = notification_decision [where watchlist_items = "[''w-1'' \<mapsto> ?w2]"
      and wid = "''w-1''", OF k2 i(2) l(2) m(2) ne]
  note t3 = notification_decision [where watchlist_items = "[''w-1'' \<mapsto> ?w3]"
      and wid = "''w-1''", OF k3 i(1) l(3) m(3) ne]
  have f: "new_price hoodie_check < old_price hoodie_check"
    "\<not> target_price_reached hoodie_check" "target_price_reached ?c2"
    "new_price hoodie_check = 799" "old_price hoodie_check = 89995 / 100"
    "pc_currency hoodie_check = Some ''SEK''" "drop_percent hoodie_check = 201900 / 17999"
    by (simp_all add: hoodie_check_def)
  have g: "notify_any_drop hoodie_watch = Val False" "target_price ?w2 = Val 800"
    "dict_get_default (notify_any_drop ?w3) True = Some True"
    by (simp_all add: hoodie_watch_def dict_get_default_def)
  have r1: "process_price_checks [hoodie_check] [''w-1'' \<mapsto> hoodie_watch] = ([], None)"
    using t1 f(2) g(1) by blast
  have r2: "process_price_checks [?c2] [''w-1'' \<mapsto> ?w2] =
      ([TargetPriceAlert ''anna@example.org'' 800 799 (Some ''SEK'')], None)"
    using t2 f(3) g(2) by (auto simp: hoodie_check_def)
  have r3: "process_price_checks [hoodie_check] [''w-1'' \<mapsto> ?w3] =
      ([PriceDropAlert ''anna@example.org'' (89995 / 100) 799 (Some ''SEK'')
          (201900 / 17999)], None)"
    using t3 f g(3) by auto
  show ?thesis using k1 f(1,2) g(1) r1 k2 r2 k3 r3 by blast
qed

end
